theory Spec2Isabelle
  imports Complex_Main "HOL-Library.Sublist"
begin

section \<open>The generation pipeline of ConfigContext.tsx\<close>

text \<open>
  The provider component of \<^verbatim>\<open>src/context/ConfigContext.tsx\<close> keeps the state of the
  generation pipeline in React state cells and refs, sends requests to two web workers
  and reacts to their answers in two message handlers. The embedding below passes that
  state explicitly: every handler and trigger takes the state and returns the new one.
  The messages posted to the workers are kept in two lists of the state, so that
  what has been sent can be stated.
\<close>

subsection \<open>JavaScript values\<close>

text \<open>
  The parsed configuration is whatever \<^verbatim>\<open>JSON.parse\<close> or \<^verbatim>\<open>yaml.load\<close> return.
  An object is the list of its own enumerable properties in property order.
\<close>

datatype jsnum = NaN | Infinite bool | Finite real

datatype jsval =
    JUndefined
  | JNull
  | JBool bool
  | JNum jsnum
  | JStr string
  | JArr "jsval list"
  | JObj "(string \<times> jsval) list"

text \<open>Truthiness, as \<^verbatim>\<open>if (v)\<close> and \<^verbatim>\<open>!v\<close> read it.\<close>

fun truthy :: "jsval \<Rightarrow> bool" where
  "truthy JUndefined = False"
| "truthy JNull = False"
| "truthy (JBool b) = b"
| "truthy (JNum NaN) = False"
| "truthy (JNum (Infinite _)) = True"
| "truthy (JNum (Finite r)) = (r \<noteq> 0)"
| "truthy (JStr s) = (s \<noteq> [])"
| "truthy (JArr _) = True"
| "truthy (JObj _) = True"

text \<open>
  Property access \<^verbatim>\<open>v.k\<close> for the keys the provider reads (\<^verbatim>\<open>pcbs\<close>, \<^verbatim>\<open>template\<close>,
  \<^verbatim>\<open>footprints\<close>, \<^verbatim>\<open>what\<close>, \<^verbatim>\<open>points\<close>), none of which is inherited from a prototype:
  \<^verbatim>\<open>null\<close> and \<^verbatim>\<open>undefined\<close> raise a TypeError (the value \<open>None\<close>), an object yields
  its property or \<^verbatim>\<open>undefined\<close>, every other value yields \<^verbatim>\<open>undefined\<close>.
\<close>

fun get_prop :: "jsval \<Rightarrow> string \<Rightarrow> jsval option" where
  "get_prop JUndefined k = None"
| "get_prop JNull k = None"
| "get_prop (JObj ps) k = Some (case map_of ps k of None \<Rightarrow> JUndefined | Some v \<Rightarrow> v)"
| "get_prop v k = Some JUndefined"

text \<open>
  \<^verbatim>\<open>Object.values(v)\<close>: the property values of an object, the elements of an array,
  the characters of a string, nothing for a number or a boolean, a TypeError for
  \<^verbatim>\<open>null\<close> and \<^verbatim>\<open>undefined\<close>.
\<close>

fun object_values :: "jsval \<Rightarrow> jsval list option" where
  "object_values JUndefined = None"
| "object_values JNull = None"
| "object_values (JObj ps) = Some (map snd ps)"
| "object_values (JArr vs) = Some vs"
| "object_values (JStr s) = Some (map (\<lambda>c. JStr [c]) s)"
| "object_values v = Some []"

text \<open>Writing a property: an existing key keeps its place, a new key goes last.\<close>

fun set_prop :: "(string \<times> jsval) list \<Rightarrow> string \<Rightarrow> jsval \<Rightarrow> (string \<times> jsval) list" where
  "set_prop [] k v = [(k, v)]"
| "set_prop ((k', v') # ps) k v = (if k' = k then (k, v) # ps else (k', v') # set_prop ps k v)"

subsection \<open>Results\<close>

text \<open>
  An optional property of a result object is absent, present with the value
  \<^verbatim>\<open>undefined\<close>, or present with a value.
\<close>

datatype 'a js_prop = Absent | Undefined | Value 'a

fun prop_truthy :: "string js_prop \<Rightarrow> bool" where
  "prop_truthy (Value s) = (s \<noteq> [])"
| "prop_truthy _ = False"

record CaseOutput =
  jscad :: "string js_prop"
  stl :: "string js_prop"

text \<open>The payloads of the categories other than \<^verbatim>\<open>cases\<close> are not inspected.\<close>

datatype payload = Payload string

record Results =
  cases :: "(string \<times> CaseOutput) list option"
  others :: "(string \<times> payload) list"

subsection \<open>Workers and messages\<close>

text \<open>
  A worker handle is known to the provider only through \<^verbatim>\<open>postMessage\<close>, which
  either takes the message or throws. \<^verbatim>\<open>catch (e)\<close> of \<^verbatim>\<open>runGeneration\<close> tests the
  thrown value for falsiness and for \<^verbatim>\<open>typeof e\<close>: a string, an object (given by what
  its \<^verbatim>\<open>toString()\<close> returns), \<^verbatim>\<open>null\<close>, or any other primitive (given by its
  truthiness).
\<close>

datatype js_thrown = ThrownString string | ThrownObject string | ThrownNull | ThrownPrimitive bool

datatype worker = PostOk | PostThrows js_thrown

datatype input_config = ConfigText string | ConfigObject "(string \<times> jsval) list"

text \<open>
  The request id is the template literal
  \<^verbatim>\<open>`ergogen-generate-${currentConfigVersion.current}-${Date.now()}`\<close>, kept as its two
  numbers.
\<close>

datatype ergogen_request = GenerateRequest
  (inputConfig: input_config)
  (injectionInput: "string list list option")
  (requestId_version: nat)
  (requestId_time: nat)
  (options_debug: bool)
  (options_svg: bool)

datatype ergogen_response =
    ErgogenError string
  | ErgogenSuccess "Results option" "string list"
  | ErgogenOther

datatype jscad_request = BatchJscadToStl (request_results: Results) (request_configVersion: nat)

datatype jscad_body = JscadError string | JscadSuccess "Results option" | JscadOther

datatype jscad_response = JscadResponse (configVersion: nat) (body: jscad_body)

subsection \<open>The state of the provider\<close>

text \<open>
  The field \<open>debounced\<close> is the state of the function that \<^verbatim>\<open>lodash.debounce\<close> returns;
  the library is not part of the repository, so its state is a type parameter.
\<close>

record 'd state =
  error :: "string option"
  deprecationWarning :: "string option"
  results :: "Results option"
  resultsVersion :: nat
  isGenerating :: bool
  isJscadConverting :: bool
  currentConfigVersion :: nat
  ergogenWorkerRef :: "worker option"
  jscadWorkerRef :: "worker option"
  stlPreview :: bool
  debug :: bool
  debounced :: 'd
  ergogenSent :: "ergogen_request list"
  jscadSent :: "jscad_request list"

text \<open>
  Both counters are JavaScript numbers, incremented by one from zero: the values are
  exact up to \<open>2 ^ 53\<close>, where \<^verbatim>\<open>n + 1\<close> rounds back to \<^verbatim>\<open>n\<close>.
\<close>

definition MAX_EXACT :: nat where
  "MAX_EXACT = 2 ^ 53"

definition js_incr :: "nat \<Rightarrow> nat" where
  "js_incr n = (if n < MAX_EXACT then n + 1 else n)"

definition clearError :: "'d state \<Rightarrow> 'd state" where
  "clearError s = s\<lparr>error := None\<rparr>"

definition clearWarning :: "'d state \<Rightarrow> 'd state" where
  "clearWarning s = s\<lparr>deprecationWarning := None\<rparr>"

subsection \<open>handleErgogenWorkerMessage\<close>

text \<open>\<^verbatim>\<open>warnings.join('\n')\<close>.\<close>

fun join_lines :: "string list \<Rightarrow> string" where
  "join_lines [] = []"
| "join_lines [w] = w"
| "join_lines (w # ws) = w @ [CHR 0x0A] @ join_lines ws"

text \<open>\<^verbatim>\<open>(prev) => (prev ? prev + '\n' : '') + response.warnings.join('\n')\<close>.\<close>

definition append_warnings :: "string option \<Rightarrow> string list \<Rightarrow> string" where
  "append_warnings prev warnings =
     (case prev of
        None \<Rightarrow> []
      | Some p \<Rightarrow> (if p \<noteq> [] then p @ [CHR 0x0A] else [])) @ join_lines warnings"

text \<open>
  The loop over \<^verbatim>\<open>Object.keys(newResults.cases)\<close>: every case whose \<^verbatim>\<open>jscad\<close> is
  truthy gets \<^verbatim>\<open>stl = undefined\<close>.
\<close>

definition mark_case :: "CaseOutput \<Rightarrow> CaseOutput" where
  "mark_case caseObj = (if prop_truthy (jscad caseObj) then caseObj\<lparr>stl := Undefined\<rparr> else caseObj)"

definition mark_pending :: "Results \<Rightarrow> Results" where
  "mark_pending newResults =
     newResults\<lparr>cases := map_option (map (\<lambda>(name, caseObj). (name, mark_case caseObj))) (cases newResults)\<rparr>"

text \<open>\<^verbatim>\<open>newResults.cases && Object.keys(newResults.cases).length > 0\<close>.\<close>

definition has_cases :: "Results \<Rightarrow> bool" where
  "has_cases newResults = (case cases newResults of None \<Rightarrow> False | Some cs \<Rightarrow> cs \<noteq> [])"

definition handleErgogenWorkerMessage :: "'d state \<Rightarrow> ergogen_response \<Rightarrow> 'd state" where
  "handleErgogenWorkerMessage s response =
     (case response of
        ErgogenError err \<Rightarrow>
          s\<lparr>error := Some err, isGenerating := False, isJscadConverting := False\<rparr>
      | ErgogenSuccess res warnings \<Rightarrow>
          (let s1 = (if warnings \<noteq> []
                     then s\<lparr>deprecationWarning := Some (append_warnings (deprecationWarning s) warnings)\<rparr>
                     else s)
           in case res of
                None \<Rightarrow> s1\<lparr>isGenerating := False\<rparr>
              | Some newResults \<Rightarrow>
                  if stlPreview s1 \<and> has_cases newResults then
                    (let marked = mark_pending newResults
                     in case jscadWorkerRef s1 of
                          None \<Rightarrow>
                            s1\<lparr>results := Some marked,
                               resultsVersion := js_incr (resultsVersion s1),
                               isGenerating := False\<rparr>
                        | Some PostOk \<Rightarrow>
                            s1\<lparr>isJscadConverting := True,
                               jscadSent := jscadSent s1 @ [BatchJscadToStl marked (currentConfigVersion s1)],
                               results := Some marked,
                               resultsVersion := js_incr (resultsVersion s1)\<rparr>
                        | Some (PostThrows e) \<Rightarrow>
                            s1\<lparr>isJscadConverting := True\<rparr>)
                  else
                    s1\<lparr>results := Some newResults,
                       resultsVersion := js_incr (resultsVersion s1),
                       isGenerating := False\<rparr>)
      | ErgogenOther \<Rightarrow> s\<lparr>isGenerating := False\<rparr>)"

subsection \<open>handleJscadWorkerMessage\<close>

definition handleJscadWorkerMessage :: "'d state \<Rightarrow> jscad_response \<Rightarrow> 'd state" where
  "handleJscadWorkerMessage s response =
     (if configVersion response \<noteq> currentConfigVersion s then s
      else case body response of
             JscadError err \<Rightarrow> s\<lparr>isJscadConverting := False, isGenerating := False\<rparr>
           | JscadSuccess (Some res) \<Rightarrow>
               s\<lparr>results := Some res,
                 resultsVersion := js_incr (resultsVersion s),
                 isJscadConverting := False,
                 isGenerating := False\<rparr>
           | JscadSuccess None \<Rightarrow> s
           | JscadOther \<Rightarrow> s)"

subsection \<open>parseConfig\<close>

text \<open>
  \<^verbatim>\<open>JSON.parse\<close> and \<^verbatim>\<open>yaml.load\<close> belong to the platform and to the js-yaml
  library; they are parameters (\<open>None\<close> when the parser throws), with the clock
  \<^verbatim>\<open>Date.now()\<close>.
\<close>

record env =
  json_parse :: "string \<Rightarrow> jsval option"
  yaml_load :: "string \<Rightarrow> jsval option"
  date_now :: nat

definition parseConfig :: "env \<Rightarrow> string \<Rightarrow> string \<times> jsval" where
  "parseConfig e inputString =
     (let (type1, parsed1) = (case json_parse e inputString of
                                Some v \<Rightarrow> (''json'', v)
                              | None \<Rightarrow> (''UNKNOWN'', JNull))
      in case yaml_load e inputString of
           Some v \<Rightarrow> (''yaml'', v)
         | None \<Rightarrow> (type1, parsed1))"

subsection \<open>The scan for deprecated KiCad 5 footprints\<close>

definition KICAD5_WARNING :: string where
  "KICAD5_WARNING =
     ''KiCad 5 is deprecated. Please add '' @ [CHR 0x22] @ ''template: kicad8'' @ [CHR 0x22] @
     '' to your PCB definitions to avoid errors when opening PCB files with KiCad 8 or newer.''"

text \<open>\<^verbatim>\<open>typeof footprint.what === 'string' && footprint.what.startsWith('ceoloide')\<close>.\<close>

definition what_is_ceoloide :: "jsval \<Rightarrow> bool" where
  "what_is_ceoloide footprint =
     (case get_prop footprint ''what'' of
        Some (JStr w) \<Rightarrow> prefix ''ceoloide'' w
      | _ \<Rightarrow> False)"

text \<open>The inner loop, left by \<^verbatim>\<open>break\<close> at the first match.\<close>

fun scan_footprints :: "jsval list \<Rightarrow> bool" where
  "scan_footprints [] = False"
| "scan_footprints (footprint # rest) =
     (if truthy footprint \<and> what_is_ceoloide footprint then True else scan_footprints rest)"

datatype scan_result = ScanThrows | ScanFound | ScanClean

text \<open>
  The outer loop. \<^verbatim>\<open>pcb.template\<close> on an entry that is \<^verbatim>\<open>null\<close> raises a TypeError,
  which leaves \<^verbatim>\<open>runGeneration\<close> outside its \<^verbatim>\<open>try\<close>.
\<close>

fun scan_pcbs :: "jsval list \<Rightarrow> scan_result" where
  "scan_pcbs [] = ScanClean"
| "scan_pcbs (pcb # rest) =
     (case get_prop pcb ''template'' of
        None \<Rightarrow> ScanThrows
      | Some template \<Rightarrow>
          if \<not> truthy template \<or> template = JStr ''kicad5'' then
            (case get_prop pcb ''footprints'' of
               None \<Rightarrow> ScanThrows
             | Some footprints \<Rightarrow>
                 if truthy footprints then
                   (case object_values footprints of
                      None \<Rightarrow> ScanThrows
                    | Some fps \<Rightarrow> if scan_footprints fps then ScanFound else scan_pcbs rest)
                 else scan_pcbs rest)
          else scan_pcbs rest)"

text \<open>\<^verbatim>\<open>if (parsedConfig && parsedConfig.pcbs) { ... }\<close>.\<close>

definition scan_config :: "jsval \<Rightarrow> scan_result" where
  "scan_config parsedConfig =
     (if truthy parsedConfig then
        (case get_prop parsedConfig ''pcbs'' of
           None \<Rightarrow> ScanThrows
         | Some pcbs \<Rightarrow>
             if truthy pcbs then
               (case object_values pcbs of
                  None \<Rightarrow> ScanThrows
                | Some ps \<Rightarrow> scan_pcbs ps)
             else ScanClean)
      else ScanClean)"

subsection \<open>runGeneration\<close>

record ProcessOptions =
  pointsonly :: bool

definition default_options :: ProcessOptions where
  "default_options = \<lparr>pointsonly = True\<rparr>"

text \<open>Optional chaining \<^verbatim>\<open>v?.k\<close>.\<close>

definition optional_prop :: "jsval \<Rightarrow> string \<Rightarrow> jsval" where
  "optional_prop v k = (case get_prop v k of None \<Rightarrow> JUndefined | Some x \<Rightarrow> x)"

text \<open>
  The properties that \<^verbatim>\<open>{...parsedConfig}\<close> copies. The spread is evaluated only
  when \<^verbatim>\<open>parsedConfig.points\<close> is truthy, that is on an object.
\<close>

fun own_props :: "jsval \<Rightarrow> (string \<times> jsval) list" where
  "own_props (JObj ps) = ps"
| "own_props _ = []"

definition strip_heavy :: "jsval \<Rightarrow> input_config" where
  "strip_heavy parsedConfig =
     ConfigObject (set_prop (set_prop (own_props parsedConfig) ''pcbs'' JUndefined) ''cases'' JUndefined)"

text \<open>The \<^verbatim>\<open>catch (e)\<close> block.\<close>

definition catch_block :: "'d state \<Rightarrow> js_thrown \<Rightarrow> 'd state" where
  "catch_block s e =
     (let s1 = s\<lparr>isGenerating := False\<rparr>
      in case e of
           ThrownString str \<Rightarrow> (if str = [] then s1 else s1\<lparr>error := Some str\<rparr>)
         | ThrownObject str \<Rightarrow> s1\<lparr>error := Some str\<rparr>
         | ThrownNull \<Rightarrow> s1
         | ThrownPrimitive b \<Rightarrow> s1)"

text \<open>
  \<^verbatim>\<open>runGeneration\<close> is an async function without \<^verbatim>\<open>await\<close>: it runs to its end
  within the call, and its promise resolves, or rejects with the TypeError of the scan.
\<close>

datatype completion = Resolved | Rejected

definition runGeneration ::
  "env \<Rightarrow> 'd state \<Rightarrow> string option \<Rightarrow> string list list option \<Rightarrow> ProcessOptions option
     \<Rightarrow> completion \<times> 'd state" where
  "runGeneration e s textInput injection options =
     (case textInput of
        None \<Rightarrow> (Resolved, s)
      | Some text \<Rightarrow>
          if text = [] then (Resolved, s)
          else
            (let opts = (case options of None \<Rightarrow> default_options | Some opt \<Rightarrow> opt);
                 parsedConfig = snd (parseConfig e text);
                 s1 = s\<lparr>error := None,
                        deprecationWarning := None,
                        isGenerating := True,
                        currentConfigVersion := js_incr (currentConfigVersion s)\<rparr>
             in case scan_config parsedConfig of
                  ScanThrows \<Rightarrow> (Rejected, s1)
                | found \<Rightarrow>
                    (let s2 = (if found = ScanFound
                               then s1\<lparr>deprecationWarning := Some KICAD5_WARNING\<rparr>
                               else s1);
                         config = (if truthy (optional_prop parsedConfig ''points'') \<and> pointsonly opts
                                   then strip_heavy parsedConfig
                                   else ConfigText text)
                     in case ergogenWorkerRef s2 of
                          None \<Rightarrow> (Resolved, s2)
                        | Some PostOk \<Rightarrow>
                            (Resolved,
                             s2\<lparr>ergogenSent := ergogenSent s2 @
                                  [GenerateRequest config injection (currentConfigVersion s2)
                                     (date_now e) (debug s2) True]\<rparr>)
                        | Some (PostThrows thrown) \<Rightarrow> (Resolved, catch_block s2 thrown))))"

subsection \<open>generateNow and the events of the provider\<close>

text \<open>
  \<^verbatim>\<open>processInput.cancel(); await runGeneration(textInput, injectionInput, options)\<close>.
  What \<^verbatim>\<open>cancel\<close> does to the debounced function is the parameter \<open>cancel\<close>.
\<close>

definition generateNow ::
  "('d \<Rightarrow> 'd) \<Rightarrow> env \<Rightarrow> 'd state \<Rightarrow> string option \<Rightarrow> string list list option
     \<Rightarrow> ProcessOptions option \<Rightarrow> completion \<times> 'd state" where
  "generateNow cancel e s textInput injection options =
     runGeneration e (s\<lparr>debounced := cancel (debounced s)\<rparr>) textInput injection
       (Some (case options of None \<Rightarrow> default_options | Some opt \<Rightarrow> opt))"

text \<open>
  Handlers and triggers run one at a time. An event is one such run: the debounced
  function firing \<^verbatim>\<open>runGeneration\<close>, \<^verbatim>\<open>generateNow\<close>, a message of either worker,
  or one of the two clear operations.
\<close>

datatype event =
    RunGeneration env "string option" "string list list option" "ProcessOptions option"
  | GenerateNow env "string option" "string list list option" "ProcessOptions option"
  | ErgogenMessage ergogen_response
  | JscadMessage jscad_response
  | ClearError
  | ClearWarning

fun step :: "('d \<Rightarrow> 'd) \<Rightarrow> 'd state \<Rightarrow> event \<Rightarrow> 'd state" where
  "step cancel s (RunGeneration e t i opt) = snd (runGeneration e s t i opt)"
| "step cancel s (GenerateNow e t i opt) = snd (generateNow cancel e s t i opt)"
| "step cancel s (ErgogenMessage r) = handleErgogenWorkerMessage s r"
| "step cancel s (JscadMessage r) = handleJscadWorkerMessage s r"
| "step cancel s ClearError = clearError s"
| "step cancel s ClearWarning = clearWarning s"

definition run :: "('d \<Rightarrow> 'd) \<Rightarrow> 'd state \<Rightarrow> event list \<Rightarrow> 'd state" where
  "run cancel s evs = foldl (step cancel) s evs"

subsection \<open>processInput, the debounced trigger\<close>

text \<open>
  \<^verbatim>\<open>processInput\<close> is \<^verbatim>\<open>debounce(runGeneration, 300)\<close>. The arguments of a call are
  the snapshot text, the injections and the options.
\<close>

type_synonym call_args = "string option \<times> string list list option \<times> ProcessOptions option"

definition QUIET_PERIOD :: nat where
  "QUIET_PERIOD = 300"

text \<open>
  Modelled from the spec: the function that \<^verbatim>\<open>lodash.debounce\<close> returns, whose code
  is not in the repository. By section 4.1 of the specification a debounced request
  schedules a dispatch after a fixed quiet period from the last call, coalescing the
  calls within the window into one dispatch with the latest arguments, and the
  immediate trigger cancels a scheduled timer that has not fired. The timer is idle, or
  scheduled with its deadline in milliseconds and the latest arguments.
\<close>

datatype debounce_timer = Idle | Scheduled nat call_args

text \<open>
  Modelled from the spec: a call of the debounced function at the time \<open>now\<close>
  (re)starts the quiet period and keeps the latest arguments.
\<close>

definition processInput :: "nat \<Rightarrow> debounce_timer state \<Rightarrow> call_args \<Rightarrow> debounce_timer state" where
  "processInput now s args = s\<lparr>debounced := Scheduled (now + QUIET_PERIOD) args\<rparr>"

text \<open>Modelled from the spec: \<^verbatim>\<open>processInput.cancel()\<close> clears a scheduled timer.\<close>

definition processInput_cancel :: "debounce_timer \<Rightarrow> debounce_timer" where
  "processInput_cancel timer = Idle"

text \<open>
  Modelled from the spec: when the clock has reached the deadline the timer fires, that
  is it calls \<^verbatim>\<open>runGeneration\<close> with the latest arguments; before the deadline
  nothing happens.
\<close>

definition timer_fires :: "env \<Rightarrow> nat \<Rightarrow> debounce_timer state \<Rightarrow> debounce_timer state" where
  "timer_fires e now s =
     (case debounced s of
        Idle \<Rightarrow> s
      | Scheduled deadline (textInput, injection, options) \<Rightarrow>
          if deadline \<le> now
          then snd (runGeneration (e\<lparr>date_now := now\<rparr>) (s\<lparr>debounced := Idle\<rparr>) textInput injection options)
          else s)"

text \<open>
  A sequence of debounced calls, each with the time at which it is made: before a call
  is served, a timer that is due by then fires.
\<close>

fun debounced_calls :: "env \<Rightarrow> debounce_timer state \<Rightarrow> (nat \<times> call_args) list \<Rightarrow> debounce_timer state" where
  "debounced_calls e s [] = s"
| "debounced_calls e s ((now, args) # calls) =
     debounced_calls e (processInput now (timer_fires e now s) args) calls"

text \<open>The calls, and then the quiet period after the last of them.\<close>

definition burst :: "env \<Rightarrow> debounce_timer state \<Rightarrow> (nat \<times> call_args) list \<Rightarrow> debounce_timer state" where
  "burst e s calls =
     (case calls of
        [] \<Rightarrow> s
      | _ \<Rightarrow> timer_fires e (fst (last calls) + QUIET_PERIOD) (debounced_calls e s calls))"

text \<open>The calls follow each other within the quiet period.\<close>

fun rapid :: "(nat \<times> call_args) list \<Rightarrow> bool" where
  "rapid [] = True"
| "rapid [c] = True"
| "rapid ((t1, a1) # (t2, a2) # calls) =
     (t1 \<le> t2 \<and> t2 < t1 + QUIET_PERIOD \<and> rapid ((t2, a2) # calls))"

subsection \<open>The initial state\<close>

text \<open>
  The initial values of the \<^verbatim>\<open>useState\<close> and \<^verbatim>\<open>useRef\<close> cells. The two
  workers come from \<^verbatim>\<open>workerFactory\<close>, the two settings from local storage.
\<close>

definition initial_state :: "worker option \<Rightarrow> worker option \<Rightarrow> bool \<Rightarrow> bool \<Rightarrow> 'd \<Rightarrow> 'd state" where
  "initial_state ergogenWorker jscadWorker stlPreviewSetting debugSetting d =
     \<lparr>error = None,
      deprecationWarning = None,
      results = None,
      resultsVersion = 0,
      isGenerating = False,
      isJscadConverting = False,
      currentConfigVersion = 0,
      ergogenWorkerRef = ergogenWorker,
      jscadWorkerRef = jscadWorker,
      stlPreview = stlPreviewSetting,
      debug = debugSetting,
      debounced = d,
      ergogenSent = [],
      jscadSent = []\<rparr>"

subsection \<open>The words of the specification\<close>

text \<open>
  The pending conversion set of the specification: the case entries whose geometry
  description is present and whose mesh is not yet computed.
\<close>

fun is_value :: "'a js_prop \<Rightarrow> bool" where
  "is_value (Value _) = True"
| "is_value _ = False"

definition pending_conversion_set :: "Results \<Rightarrow> (string \<times> CaseOutput) list" where
  "pending_conversion_set r =
     (case cases r of
        None \<Rightarrow> []
      | Some cs \<Rightarrow> filter (\<lambda>(name, c). is_value (jscad c) \<and> \<not> is_value (stl c)) cs)"

text \<open>
  The deprecated pattern of the specification: the parsed snapshot has a PCB entry with
  no template set, or with the legacy template, that contains a footprint whose
  \<^verbatim>\<open>what\<close> starts with the legacy family's prefix.
\<close>

definition values_of :: "jsval \<Rightarrow> jsval list" where
  "values_of v = (case object_values v of None \<Rightarrow> [] | Some vs \<Rightarrow> vs)"

definition legacy_footprint :: "jsval \<Rightarrow> bool" where
  "legacy_footprint footprint =
     (case optional_prop footprint ''what'' of
        JStr w \<Rightarrow> prefix ''ceoloide'' w
      | _ \<Rightarrow> False)"

definition legacy_pcb :: "jsval \<Rightarrow> bool" where
  "legacy_pcb pcb =
     ((optional_prop pcb ''template'' = JUndefined \<or> optional_prop pcb ''template'' = JStr ''kicad5'') \<and>
      list_ex legacy_footprint (values_of (optional_prop pcb ''footprints'')))"

definition has_legacy_pattern :: "jsval \<Rightarrow> bool" where
  "has_legacy_pattern parsedConfig = list_ex legacy_pcb (values_of (optional_prop parsedConfig ''pcbs''))"

subsection \<open>Concrete inputs\<close>

text \<open>A parser that knows one keyboard with a legacy footprint, and a null PCB entry.\<close>

definition kb_config :: jsval where
  "kb_config =
     JObj [(''points'', JObj [(''zones'', JObj [])]),
           (''pcbs'', JObj [(''kb'', JObj [(''footprints'',
              JObj [(''x'', JObj [(''what'', JStr ''ceoloide/switch_mx'')])])])])]"

definition null_pcb_config :: jsval where
  "null_pcb_config = JObj [(''pcbs'', JObj [(''kb'', JNull)])]"

definition test_yaml :: "string \<Rightarrow> jsval option" where
  "test_yaml text =
     (if text = ''kb'' then Some kb_config
      else if text = ''pcbs: {kb: }'' then Some null_pcb_config
      else Some (JStr text))"

definition test_env :: env where
  "test_env = \<lparr>json_parse = (\<lambda>text. None), yaml_load = test_yaml, date_now = 1000\<rparr>"

definition ready_state :: "unit state" where
  "ready_state = initial_state (Some PostOk) (Some PostOk) True False ()"

definition no_worker_state :: "unit state" where
  "no_worker_state = initial_state None None True False ()"

definition two_dispatches :: "unit state" where
  "two_dispatches =
     run id ready_state
       [RunGeneration test_env (Some ''first'') None None,
        RunGeneration test_env (Some ''second'') None None]"

definition idle_state :: "debounce_timer state" where
  "idle_state = initial_state (Some PostOk) (Some PostOk) True False Idle"

definition edits_ending_with_text :: "(nat \<times> call_args) list" where
  "edits_ending_with_text =
     [(0, (Some ''first'', None, None)),
      (120, (Some ''second'', None, None)),
      (350, (Some ''kb'', Some [[''footprint'', ''mx'', ''code'']], Some \<lparr>pointsonly = False\<rparr>))]"

definition edits_ending_empty :: "(nat \<times> call_args) list" where
  "edits_ending_empty =
     [(0, (Some ''first'', None, None)),
      (120, (Some ''kb'', None, None)),
      (200, (Some [], None, None))]"

definition first_results :: Results where
  "first_results = \<lparr>cases = None, others = [(''points'', Payload ''first'')]\<rparr>"

definition second_results :: Results where
  "second_results = \<lparr>cases = None, others = [(''points'', Payload ''second'')]\<rparr>"

definition bare_case_results :: Results where
  "bare_case_results =
     \<lparr>cases = Some [(''shell'', \<lparr>jscad = Absent, stl = Absent\<rparr>)], others = []\<rparr>"

definition geometry_results :: Results where
  "geometry_results =
     \<lparr>cases = Some [(''shell'', \<lparr>jscad = Value ''cube()'', stl = Absent\<rparr>)],
      others = [(''points'', Payload ''p'')]\<rparr>"

definition converting_state :: "unit state" where
  "converting_state =
     handleErgogenWorkerMessage
       (snd (runGeneration test_env ready_state (Some ''kb'') None (Some \<lparr>pointsonly = False\<rparr>)))
       (ErgogenSuccess (Some geometry_results) [])"

definition mesh_only_results :: Results where
  "mesh_only_results =
     \<lparr>cases = Some [(''shell'', \<lparr>jscad = Value ''cube()'', stl = Value ''solid''\<rparr>)], others = []\<rparr>"

section \<open>Properties\<close>

lemmas fixture_defs = kb_config_def null_pcb_config_def test_yaml_def test_env_def ready_state_def
  no_worker_state_def initial_state_def

lemmas run_defs = runGeneration_def parseConfig_def scan_config_def optional_prop_def strip_heavy_def
  default_options_def js_incr_def MAX_EXACT_def what_is_ceoloide_def catch_block_def

subsection \<open>The request version\<close>

lemma js_incr_ge: "n \<le> js_incr n"
  by (simp add: js_incr_def)

lemma js_incr_exact: "n < MAX_EXACT \<Longrightarrow> js_incr n = n + 1"
  by (simp add: js_incr_def)

lemma version_handleErgogenWorkerMessage:
  "currentConfigVersion (handleErgogenWorkerMessage s r) = currentConfigVersion s"
  by (simp add: handleErgogenWorkerMessage_def Let_def
      split: ergogen_response.split option.split worker.split)

lemma version_handleJscadWorkerMessage:
  "currentConfigVersion (handleJscadWorkerMessage s r) = currentConfigVersion s"
  by (simp add: handleJscadWorkerMessage_def split: jscad_body.split option.split)

lemma version_catch_block: "currentConfigVersion (catch_block s e) = currentConfigVersion s"
  by (simp add: catch_block_def Let_def split: js_thrown.split)

lemma version_runGeneration:
  "currentConfigVersion (snd (runGeneration e s textInput injection opts)) =
     (case textInput of
        None \<Rightarrow> currentConfigVersion s
      | Some text \<Rightarrow> if text = [] then currentConfigVersion s else js_incr (currentConfigVersion s))"
  by (simp add: runGeneration_def Let_def version_catch_block
      split: option.split scan_result.split worker.split)

lemma version_generateNow:
  "currentConfigVersion (snd (generateNow cancel e s textInput injection opts)) =
     (case textInput of
        None \<Rightarrow> currentConfigVersion s
      | Some text \<Rightarrow> if text = [] then currentConfigVersion s else js_incr (currentConfigVersion s))"
  by (simp add: generateNow_def version_runGeneration split: option.split)

lemma version_step: "currentConfigVersion s \<le> currentConfigVersion (step cancel s ev)"
  by (cases ev)
    (simp_all add: version_runGeneration version_generateNow version_handleErgogenWorkerMessage
      version_handleJscadWorkerMessage clearError_def clearWarning_def js_incr_ge split: option.split)

lemma version_foldl_step:
  "currentConfigVersion s \<le> currentConfigVersion (foldl (step cancel) s evs)"
proof (induction evs arbitrary: s)
  case Nil
  show ?case by simp
next
  case (Cons ev evs)
  have "currentConfigVersion s \<le> currentConfigVersion (step cancel s ev)"
    by (rule version_step)
  also have "\<dots> \<le> currentConfigVersion (foldl (step cancel) (step cancel s ev) evs)"
    by (rule Cons.IH)
  finally show ?case by simp
qed

lemma version_run: "currentConfigVersion s \<le> currentConfigVersion (run cancel s evs)"
  unfolding run_def by (rule version_foldl_step)

subsection \<open>Stale responses\<close>

lemma stale_jscad_response:
  "configVersion response \<noteq> currentConfigVersion s \<Longrightarrow> handleJscadWorkerMessage s response = s"
  by (simp add: handleJscadWorkerMessage_def)

text \<open>
  Claim C1, as far as the code goes. A response of the JSCAD worker whose
  \<^verbatim>\<open>configVersion\<close> differs from \<^verbatim>\<open>currentConfigVersion.current\<close> at its arrival is
  dropped and the state stays as it is. The version never decreases, so once it has
  reached \<open>v2\<close>, a JSCAD response stamped with a smaller \<open>v1\<close> changes nothing,
  whatever happened in between.
\<close>

theorem stale_secondary_response_discarded:
  "(configVersion response \<noteq> currentConfigVersion s \<longrightarrow> handleJscadWorkerMessage s response = s) \<and>
   (v1 < v2 \<and> v2 \<le> currentConfigVersion s \<longrightarrow>
      handleJscadWorkerMessage (run cancel s evs) (JscadResponse v1 b) = run cancel s evs)"
proof (intro conjI impI)
  assume "configVersion response \<noteq> currentConfigVersion s"
  then show "handleJscadWorkerMessage s response = s"
    by (rule stale_jscad_response)
next
  assume "v1 < v2 \<and> v2 \<le> currentConfigVersion s"
  moreover have "currentConfigVersion s \<le> currentConfigVersion (run cancel s evs)"
    by (rule version_run)
  ultimately have "configVersion (JscadResponse v1 b) \<noteq> currentConfigVersion (run cancel s evs)"
    by simp
  then show "handleJscadWorkerMessage (run cancel s evs) (JscadResponse v1 b) = run cancel s evs"
    by (rule stale_jscad_response)
qed

theorem stale_secondary_response_discarded_witness:
  "configVersion (JscadResponse 1 (JscadSuccess (Some mesh_only_results))) \<noteq> currentConfigVersion two_dispatches \<and>
   handleJscadWorkerMessage two_dispatches (JscadResponse 1 (JscadSuccess (Some mesh_only_results))) = two_dispatches \<and>
   (1::nat) < 2 \<and> 2 \<le> currentConfigVersion two_dispatches \<and>
   handleJscadWorkerMessage
     (run id two_dispatches [ErgogenMessage (ErgogenSuccess (Some geometry_results) [])])
     (JscadResponse 1 (JscadSuccess (Some mesh_only_results))) =
   run id two_dispatches [ErgogenMessage (ErgogenSuccess (Some geometry_results) [])]"
proof -
  have v: "currentConfigVersion two_dispatches = 2"
    by (simp add: two_dispatches_def run_def fixture_defs run_defs)
  show ?thesis
    using stale_secondary_response_discarded
      [of "JscadResponse 1 (JscadSuccess (Some mesh_only_results))" two_dispatches 1 2 id
          "[ErgogenMessage (ErgogenSuccess (Some geometry_results) [])]"
          "JscadSuccess (Some mesh_only_results)"]
    by (simp add: v)
qed

text \<open>
  Claim C1 as stated fails for the primary worker: \<^verbatim>\<open>handleErgogenWorkerMessage\<close>
  reads no version. After two requests have been sent (versions 1 and 2) and the
  results of the second are stored, the answer to the first request replaces them.
\<close>

theorem stale_primary_response_overwrites:
  "currentConfigVersion two_dispatches = 2 \<and>
   map requestId_version (ergogenSent two_dispatches) = [1, 2] \<and>
   results (handleErgogenWorkerMessage two_dispatches (ErgogenSuccess (Some second_results) []))
     = Some second_results \<and>
   results (handleErgogenWorkerMessage
              (handleErgogenWorkerMessage two_dispatches (ErgogenSuccess (Some second_results) []))
              (ErgogenSuccess (Some first_results) []))
     = Some first_results \<and>
   first_results \<noteq> second_results"
  by (simp add: two_dispatches_def run_def fixture_defs run_defs handleErgogenWorkerMessage_def
      first_results_def second_results_def has_cases_def)

subsection \<open>Answers of the JSCAD worker\<close>

lemma converting_state_eq:
  "converting_state =
     ready_state\<lparr>isGenerating := True, currentConfigVersion := 1,
       deprecationWarning := Some KICAD5_WARNING,
       ergogenSent := [GenerateRequest (ConfigText ''kb'') None 1 1000 False True],
       isJscadConverting := True,
       jscadSent := [BatchJscadToStl
          \<lparr>cases = Some [(''shell'', \<lparr>jscad = Value ''cube()'', stl = Undefined\<rparr>)],
           others = [(''points'', Payload ''p'')]\<rparr> 1],
       results := Some \<lparr>cases = Some [(''shell'', \<lparr>jscad = Value ''cube()'', stl = Undefined\<rparr>)],
           others = [(''points'', Payload ''p'')]\<rparr>,
       resultsVersion := 1\<rparr>"
  by (simp add: converting_state_def fixture_defs run_defs handleErgogenWorkerMessage_def
      geometry_results_def has_cases_def mark_pending_def mark_case_def Let_def)

text \<open>
  Claim C2, as far as the code goes. An accepted success answer of the JSCAD worker
  that carries results replaces the stored results as a whole by the answer's results;
  the results version is incremented (by one below \<open>2 ^ 53\<close>) and both busy flags are
  cleared. Nothing is merged.
\<close>

theorem accepted_secondary_success_replaces_results:
  "configVersion response = currentConfigVersion s \<and> body response = JscadSuccess (Some res) \<longrightarrow>
     handleJscadWorkerMessage s response =
       s\<lparr>results := Some res,
         resultsVersion := js_incr (resultsVersion s),
         isJscadConverting := False,
         isGenerating := False\<rparr> \<and>
     (resultsVersion s < MAX_EXACT \<longrightarrow>
        resultsVersion (handleJscadWorkerMessage s response) = resultsVersion s + 1)"
  by (simp add: handleJscadWorkerMessage_def js_incr_exact)

theorem accepted_secondary_success_replaces_results_witness:
  "configVersion (JscadResponse 1 (JscadSuccess (Some mesh_only_results))) = currentConfigVersion converting_state \<and>
   body (JscadResponse 1 (JscadSuccess (Some mesh_only_results))) = JscadSuccess (Some mesh_only_results) \<and>
   resultsVersion converting_state < MAX_EXACT \<and>
   results (handleJscadWorkerMessage converting_state (JscadResponse 1 (JscadSuccess (Some mesh_only_results))))
     = Some mesh_only_results \<and>
   resultsVersion (handleJscadWorkerMessage converting_state (JscadResponse 1 (JscadSuccess (Some mesh_only_results)))) = 2 \<and>
   \<not> isGenerating (handleJscadWorkerMessage converting_state (JscadResponse 1 (JscadSuccess (Some mesh_only_results))))"
  using accepted_secondary_success_replaces_results
    [of "JscadResponse 1 (JscadSuccess (Some mesh_only_results))" converting_state mesh_only_results]
  by (simp add: converting_state_eq fixture_defs MAX_EXACT_def js_incr_def)

text \<open>
  Claim C2 as stated fails: the stored results hold the category \<^verbatim>\<open>points\<close>, the
  accepted answer holds none, and afterwards the stored results hold none either.
\<close>

theorem secondary_success_drops_other_categories:
  "results converting_state =
     Some \<lparr>cases = Some [(''shell'', \<lparr>jscad = Value ''cube()'', stl = Undefined\<rparr>)],
           others = [(''points'', Payload ''p'')]\<rparr> \<and>
   configVersion (JscadResponse 1 (JscadSuccess (Some mesh_only_results))) = currentConfigVersion converting_state \<and>
   results (handleJscadWorkerMessage converting_state (JscadResponse 1 (JscadSuccess (Some mesh_only_results))))
     = Some \<lparr>cases = Some [(''shell'', \<lparr>jscad = Value ''cube()'', stl = Value ''solid''\<rparr>)], others = []\<rparr>"
  by (simp add: converting_state_eq fixture_defs handleJscadWorkerMessage_def mesh_only_results_def)

subsection \<open>Dispatch\<close>

text \<open>Only an object has a truthy \<^verbatim>\<open>points\<close>, so the spread copies an object's properties.\<close>

lemma truthy_points_is_object:
  "truthy (optional_prop parsedConfig ''points'') \<Longrightarrow> \<exists>ps. parsedConfig = JObj ps"
  by (cases parsedConfig) (simp_all add: optional_prop_def)

lemma sent_runGeneration:
  "ergogenSent (snd (runGeneration e s textInput injection opts)) = ergogenSent s \<or>
   (\<exists>m. ergogenSent (snd (runGeneration e s textInput injection opts)) = ergogenSent s @ [m] \<and>
        requestId_version m = currentConfigVersion (snd (runGeneration e s textInput injection opts)))"
  by (simp add: runGeneration_def Let_def catch_block_def
      split: option.split scan_result.split worker.split js_thrown.split)

text \<open>
  Claim C4, as far as the code goes. \<^verbatim>\<open>runGeneration\<close> increments the version once
  (by one below \<open>2 ^ 53\<close>) whenever the text is neither undefined nor empty, at the
  start of the generation and before any request is posted; with an undefined or empty
  text it leaves the version alone. At most one request is posted, and it carries the
  new version. Neither message handler changes the version, and over any sequence of
  events the version never decreases.
\<close>

theorem version_incremented_at_start_of_generation:
  "(textInput = None \<or> textInput = Some [] \<longrightarrow>
      currentConfigVersion (snd (runGeneration e s textInput injection opts)) = currentConfigVersion s) \<and>
   (textInput = Some text \<and> text \<noteq> [] \<and> currentConfigVersion s < MAX_EXACT \<longrightarrow>
      currentConfigVersion (snd (runGeneration e s textInput injection opts)) = currentConfigVersion s + 1) \<and>
   (ergogenSent (snd (runGeneration e s textInput injection opts)) = ergogenSent s \<or>
    (\<exists>m. ergogenSent (snd (runGeneration e s textInput injection opts)) = ergogenSent s @ [m] \<and>
         requestId_version m = currentConfigVersion (snd (runGeneration e s textInput injection opts)))) \<and>
   currentConfigVersion (handleErgogenWorkerMessage s r) = currentConfigVersion s \<and>
   currentConfigVersion (handleJscadWorkerMessage s j) = currentConfigVersion s \<and>
   currentConfigVersion s \<le> currentConfigVersion (run cancel s evs)"
proof (intro conjI impI)
  assume "textInput = None \<or> textInput = Some []"
  then show "currentConfigVersion (snd (runGeneration e s textInput injection opts)) = currentConfigVersion s"
    by (auto simp: version_runGeneration)
next
  assume "textInput = Some text \<and> text \<noteq> [] \<and> currentConfigVersion s < MAX_EXACT"
  then show "currentConfigVersion (snd (runGeneration e s textInput injection opts)) = currentConfigVersion s + 1"
    by (simp add: version_runGeneration js_incr_exact)
next
  show "ergogenSent (snd (runGeneration e s textInput injection opts)) = ergogenSent s \<or>
    (\<exists>m. ergogenSent (snd (runGeneration e s textInput injection opts)) = ergogenSent s @ [m] \<and>
         requestId_version m = currentConfigVersion (snd (runGeneration e s textInput injection opts)))"
    by (rule sent_runGeneration)
next
  show "currentConfigVersion (handleErgogenWorkerMessage s r) = currentConfigVersion s"
    by (rule version_handleErgogenWorkerMessage)
next
  show "currentConfigVersion (handleJscadWorkerMessage s j) = currentConfigVersion s"
    by (rule version_handleJscadWorkerMessage)
next
  show "currentConfigVersion s \<le> currentConfigVersion (run cancel s evs)"
    by (rule version_run)
qed

theorem version_incremented_at_start_of_generation_witness:
  "(Some ''kb'' = Some ''kb'' \<and> ''kb'' \<noteq> [] \<and> currentConfigVersion ready_state < MAX_EXACT) \<and>
   currentConfigVersion (snd (runGeneration test_env ready_state (Some ''kb'') None None)) = 1 \<and>
   currentConfigVersion (snd (runGeneration test_env ready_state (Some []) None None)) = 0 \<and>
   map requestId_version (ergogenSent (snd (runGeneration test_env ready_state (Some ''kb'') None None))) = [1]"
  using version_incremented_at_start_of_generation [of "Some ''kb''" test_env ready_state None None "''kb''"]
    version_incremented_at_start_of_generation [of "Some []" test_env ready_state None None]
  by (simp add: fixture_defs run_defs)

text \<open>
  Claim C4 as stated fails: the version is incremented although no request is posted,
  when there is no Ergogen worker, and when the scan for deprecated footprints raises a
  TypeError on a PCB entry that is \<^verbatim>\<open>null\<close>.
\<close>

theorem version_incremented_without_dispatch:
  "currentConfigVersion no_worker_state = 0 \<and>
   currentConfigVersion (snd (runGeneration test_env no_worker_state (Some ''kb'') None None)) = 1 \<and>
   ergogenSent (snd (runGeneration test_env no_worker_state (Some ''kb'') None None)) = [] \<and>
   currentConfigVersion ready_state = 0 \<and>
   runGeneration test_env ready_state (Some ''pcbs: {kb: }'') None None =
     (Rejected, ready_state\<lparr>isGenerating := True, currentConfigVersion := 1\<rparr>) \<and>
   ergogenSent (ready_state\<lparr>isGenerating := True, currentConfigVersion := 1\<rparr>) = []"
  by (simp add: fixture_defs run_defs)

text \<open>
  Claim C3 against the code. With no Ergogen worker (\<^verbatim>\<open>ergogenWorkerRef.current\<close> is
  \<^verbatim>\<open>null\<close>) \<^verbatim>\<open>runGeneration\<close> only logs to the console: \<^verbatim>\<open>isGenerating\<close> stays true
  and no error is set. The \<^verbatim>\<open>catch\<close> block beside it, reached when
  \<^verbatim>\<open>postMessage\<close> throws, does clear \<^verbatim>\<open>isGenerating\<close> and sets the error.
\<close>

theorem unavailable_worker_leaves_busy:
  "runGeneration test_env no_worker_state (Some ''kb'') None None =
     (Resolved, no_worker_state\<lparr>isGenerating := True, currentConfigVersion := 1,
        deprecationWarning := Some KICAD5_WARNING\<rparr>) \<and>
   error (no_worker_state\<lparr>isGenerating := True, currentConfigVersion := 1,
        deprecationWarning := Some KICAD5_WARNING\<rparr>) = None \<and>
   runGeneration test_env (no_worker_state\<lparr>ergogenWorkerRef := Some (PostThrows (ThrownObject ''DataCloneError''))\<rparr>)
       (Some ''kb'') None None =
     (Resolved, no_worker_state\<lparr>ergogenWorkerRef := Some (PostThrows (ThrownObject ''DataCloneError'')),
        isGenerating := False, currentConfigVersion := 1,
        deprecationWarning := Some KICAD5_WARNING, error := Some ''DataCloneError''\<rparr>)"
  by (simp add: fixture_defs run_defs)

subsection \<open>Error answers\<close>

lemma jscadSent_runGeneration:
  "jscadSent (snd (runGeneration e s textInput injection opts)) = jscadSent s"
  by (simp add: runGeneration_def Let_def catch_block_def
      split: option.split scan_result.split worker.split js_thrown.split)

text \<open>
  Claim C7. After an error answer of the Ergogen worker the error text is the answer's
  message, \<^verbatim>\<open>isGenerating\<close> and \<^verbatim>\<open>isJscadConverting\<close> are false, and the handler
  has posted nothing to either worker; from the call of \<^verbatim>\<open>runGeneration\<close> to its
  error answer nothing is posted to the JSCAD worker.
\<close>

theorem primary_error_aborts_cycle:
  "error (handleErgogenWorkerMessage s (ErgogenError message)) = Some message \<and>
   \<not> isGenerating (handleErgogenWorkerMessage s (ErgogenError message)) \<and>
   \<not> isJscadConverting (handleErgogenWorkerMessage s (ErgogenError message)) \<and>
   jscadSent (handleErgogenWorkerMessage s (ErgogenError message)) = jscadSent s \<and>
   ergogenSent (handleErgogenWorkerMessage s (ErgogenError message)) = ergogenSent s \<and>
   results (handleErgogenWorkerMessage s (ErgogenError message)) = results s \<and>
   jscadSent (handleErgogenWorkerMessage (snd (runGeneration e s textInput injection opts))
                (ErgogenError message)) = jscadSent s"
  by (simp add: handleErgogenWorkerMessage_def jscadSent_runGeneration)

theorem primary_error_aborts_cycle_witness:
  "error (handleErgogenWorkerMessage (snd (runGeneration test_env ready_state (Some ''kb'') None None))
            (ErgogenError ''bad'')) = Some ''bad'' \<and>
   \<not> isGenerating (handleErgogenWorkerMessage (snd (runGeneration test_env ready_state (Some ''kb'') None None))
            (ErgogenError ''bad'')) \<and>
   isGenerating (snd (runGeneration test_env ready_state (Some ''kb'') None None)) \<and>
   jscadSent (handleErgogenWorkerMessage (snd (runGeneration test_env ready_state (Some ''kb'') None None))
            (ErgogenError ''bad'')) = []"
  using primary_error_aborts_cycle
    [of "snd (runGeneration test_env ready_state (Some ''kb'') None None)" "''bad''"]
    primary_error_aborts_cycle [of ready_state "''bad''" test_env "Some ''kb''" None None]
  by (simp add: fixture_defs run_defs)

text \<open>
  Claim C8. An accepted error answer of the JSCAD worker clears both busy flags and
  changes nothing else: the stored results, the results version and the error text
  stay as they were.
\<close>

theorem accepted_secondary_error_keeps_results:
  "configVersion response = currentConfigVersion s \<and> body response = JscadError message \<longrightarrow>
     handleJscadWorkerMessage s response = s\<lparr>isJscadConverting := False, isGenerating := False\<rparr> \<and>
     \<not> isGenerating (handleJscadWorkerMessage s response) \<and>
     \<not> isJscadConverting (handleJscadWorkerMessage s response) \<and>
     results (handleJscadWorkerMessage s response) = results s \<and>
     resultsVersion (handleJscadWorkerMessage s response) = resultsVersion s \<and>
     error (handleJscadWorkerMessage s response) = error s"
  by (simp add: handleJscadWorkerMessage_def)

theorem accepted_secondary_error_keeps_results_witness:
  "configVersion (JscadResponse 1 (JscadError ''boom'')) = currentConfigVersion converting_state \<and>
   body (JscadResponse 1 (JscadError ''boom'')) = JscadError ''boom'' \<and>
   \<not> isGenerating (handleJscadWorkerMessage converting_state (JscadResponse 1 (JscadError ''boom''))) \<and>
   results (handleJscadWorkerMessage converting_state (JscadResponse 1 (JscadError ''boom''))) =
     Some \<lparr>cases = Some [(''shell'', \<lparr>jscad = Value ''cube()'', stl = Undefined\<rparr>)],
           others = [(''points'', Payload ''p'')]\<rparr> \<and>
   resultsVersion (handleJscadWorkerMessage converting_state (JscadResponse 1 (JscadError ''boom''))) = 1 \<and>
   error (handleJscadWorkerMessage converting_state (JscadResponse 1 (JscadError ''boom''))) = None"
  using accepted_secondary_error_keeps_results [of "JscadResponse 1 (JscadError ''boom'')" converting_state "''boom''"]
  by (simp add: converting_state_eq fixture_defs)

subsection \<open>Empty snapshots\<close>

text \<open>
  Claim C10. With an undefined or empty text \<^verbatim>\<open>runGeneration\<close>, which is what the
  debounced function calls when it fires, returns the state as it is; \<^verbatim>\<open>generateNow\<close>
  cancels the debounced function and changes nothing else: version, busy flag, error,
  warning, results, results version and the messages posted to both workers are
  unchanged.
\<close>

theorem empty_snapshot_is_noop:
  "textInput = None \<or> textInput = Some [] \<longrightarrow>
     runGeneration e s textInput injection opts = (Resolved, s) \<and>
     generateNow cancel e s textInput injection opts = (Resolved, s\<lparr>debounced := cancel (debounced s)\<rparr>) \<and>
     (let s' = snd (generateNow cancel e s textInput injection opts)
      in currentConfigVersion s' = currentConfigVersion s \<and>
         isGenerating s' = isGenerating s \<and>
         error s' = error s \<and>
         deprecationWarning s' = deprecationWarning s \<and>
         results s' = results s \<and>
         resultsVersion s' = resultsVersion s \<and>
         ergogenSent s' = ergogenSent s \<and>
         jscadSent s' = jscadSent s)"
  by (auto simp: runGeneration_def generateNow_def)

theorem empty_snapshot_is_noop_witness:
  "(Some [] = None \<or> Some [] = Some []) \<and>
   runGeneration test_env converting_state (Some []) None None = (Resolved, converting_state) \<and>
   runGeneration test_env converting_state None None None = (Resolved, converting_state) \<and>
   generateNow id test_env converting_state None None None = (Resolved, converting_state)"
  using empty_snapshot_is_noop [of "Some []" test_env converting_state None None id]
    empty_snapshot_is_noop [of None test_env converting_state None None id]
  by simp

subsection \<open>Success answers of the Ergogen worker\<close>

lemma mark_pending_marks:
  "cases (mark_pending newResults) = Some cs \<Longrightarrow> (name, c) \<in> set cs \<Longrightarrow> prop_truthy (jscad c)
     \<Longrightarrow> stl c = Undefined"
  by (auto simp: mark_pending_def mark_case_def split: if_splits)

lemma mark_pending_others: "others (mark_pending newResults) = others newResults"
  by (simp add: mark_pending_def)

text \<open>
  Claim C6, as far as the code goes. On a success answer of the Ergogen worker that
  carries results: when the STL preview is enabled, the results have at least one case
  entry and the JSCAD worker takes the message, the results are stored with
  \<^verbatim>\<open>stl = undefined\<close> on every case whose \<^verbatim>\<open>jscad\<close> is truthy, \<^verbatim>\<open>isGenerating\<close> is
  left as it was, \<^verbatim>\<open>isJscadConverting\<close> is set and exactly one request, stamped with
  the current version, is posted to the JSCAD worker. When the STL preview is disabled,
  or the results have no case entry, or there is no JSCAD worker, nothing is posted and
  \<^verbatim>\<open>isGenerating\<close> is cleared.
\<close>

theorem primary_success_enters_secondary_stage:
  "(stlPreview s \<and> has_cases newResults \<and> jscadWorkerRef s = Some PostOk \<longrightarrow>
      results (handleErgogenWorkerMessage s (ErgogenSuccess (Some newResults) warnings))
        = Some (mark_pending newResults) \<and>
      isGenerating (handleErgogenWorkerMessage s (ErgogenSuccess (Some newResults) warnings))
        = isGenerating s \<and>
      isJscadConverting (handleErgogenWorkerMessage s (ErgogenSuccess (Some newResults) warnings)) \<and>
      jscadSent (handleErgogenWorkerMessage s (ErgogenSuccess (Some newResults) warnings))
        = jscadSent s @ [BatchJscadToStl (mark_pending newResults) (currentConfigVersion s)]) \<and>
   (\<not> (stlPreview s \<and> has_cases newResults) \<or> jscadWorkerRef s = None \<longrightarrow>
      jscadSent (handleErgogenWorkerMessage s (ErgogenSuccess (Some newResults) warnings)) = jscadSent s \<and>
      \<not> isGenerating (handleErgogenWorkerMessage s (ErgogenSuccess (Some newResults) warnings))) \<and>
   (cases (mark_pending newResults) = Some cs \<and> (name, c) \<in> set cs \<and> prop_truthy (jscad c) \<longrightarrow>
      stl c = Undefined)"
proof (intro conjI impI)
  assume "cases (mark_pending newResults) = Some cs \<and> (name, c) \<in> set cs \<and> prop_truthy (jscad c)"
  then show "stl c = Undefined"
    using mark_pending_marks by blast
qed (auto simp: handleErgogenWorkerMessage_def Let_def)

theorem primary_success_enters_secondary_stage_witness:
  "stlPreview (snd (runGeneration test_env ready_state (Some ''kb'') None (Some \<lparr>pointsonly = False\<rparr>))) \<and>
   has_cases geometry_results \<and>
   jscadWorkerRef (snd (runGeneration test_env ready_state (Some ''kb'') None (Some \<lparr>pointsonly = False\<rparr>)))
     = Some PostOk \<and>
   isGenerating converting_state \<and>
   jscadSent converting_state =
     [BatchJscadToStl
        \<lparr>cases = Some [(''shell'', \<lparr>jscad = Value ''cube()'', stl = Undefined\<rparr>)],
         others = [(''points'', Payload ''p'')]\<rparr> 1] \<and>
   \<not> has_cases first_results \<and>
   \<not> isGenerating (handleErgogenWorkerMessage ready_state (ErgogenSuccess (Some first_results) [])) \<and>
   cases (mark_pending geometry_results) = Some [(''shell'', \<lparr>jscad = Value ''cube()'', stl = Undefined\<rparr>)] \<and>
   (''shell'', \<lparr>jscad = Value ''cube()'', stl = Undefined\<rparr>)
     \<in> set [(''shell'', \<lparr>jscad = Value ''cube()'', stl = Undefined\<rparr>)] \<and>
   prop_truthy (jscad \<lparr>jscad = Value ''cube()'', stl = Undefined\<rparr>)"
  using primary_success_enters_secondary_stage
    [of "snd (runGeneration test_env ready_state (Some ''kb'') None (Some \<lparr>pointsonly = False\<rparr>))"
        geometry_results "[]" "[(''shell'', \<lparr>jscad = Value ''cube()'', stl = Undefined\<rparr>)]"
        "''shell''" "\<lparr>jscad = Value ''cube()'', stl = Undefined\<rparr>"]
    primary_success_enters_secondary_stage [of ready_state first_results "[]"]
  by (simp add: converting_state_def [symmetric] converting_state_eq fixture_defs run_defs
      geometry_results_def first_results_def has_cases_def mark_pending_def mark_case_def)

text \<open>
  Claim C6 as stated fails in both directions. A single case without geometry leaves
  the pending conversion set empty, yet a request is posted to the JSCAD worker and
  \<^verbatim>\<open>isGenerating\<close> stays true. A case with geometry and no mesh is pending, yet
  without a JSCAD worker nothing is posted and \<^verbatim>\<open>isGenerating\<close> is cleared.
\<close>

theorem secondary_request_without_pending_case:
  "pending_conversion_set bare_case_results = [] \<and>
   isGenerating (snd (runGeneration test_env ready_state (Some ''kb'') None None)) \<and>
   isGenerating (handleErgogenWorkerMessage (snd (runGeneration test_env ready_state (Some ''kb'') None None))
                   (ErgogenSuccess (Some bare_case_results) [])) \<and>
   jscadSent (handleErgogenWorkerMessage (snd (runGeneration test_env ready_state (Some ''kb'') None None))
                (ErgogenSuccess (Some bare_case_results) []))
     = [BatchJscadToStl bare_case_results 1] \<and>
   pending_conversion_set geometry_results \<noteq> [] \<and>
   stlPreview (ready_state\<lparr>jscadWorkerRef := None\<rparr>) \<and>
   \<not> isGenerating (handleErgogenWorkerMessage
        (snd (runGeneration test_env (ready_state\<lparr>jscadWorkerRef := None\<rparr>) (Some ''kb'') None None))
        (ErgogenSuccess (Some geometry_results) [])) \<and>
   jscadSent (handleErgogenWorkerMessage
        (snd (runGeneration test_env (ready_state\<lparr>jscadWorkerRef := None\<rparr>) (Some ''kb'') None None))
        (ErgogenSuccess (Some geometry_results) [])) = []"
  by (simp add: fixture_defs run_defs handleErgogenWorkerMessage_def pending_conversion_set_def
      bare_case_results_def geometry_results_def has_cases_def mark_pending_def mark_case_def Let_def)

subsection \<open>The deprecation warning\<close>

lemma legacy_footprint_matches:
  "legacy_footprint footprint \<Longrightarrow> truthy footprint \<and> what_is_ceoloide footprint"
  by (cases footprint)
    (auto simp: legacy_footprint_def what_is_ceoloide_def optional_prop_def split: jsval.splits option.splits)

lemma scan_footprints_finds:
  "list_ex legacy_footprint fps \<Longrightarrow> scan_footprints fps"
  by (induction fps) (auto dest: legacy_footprint_matches)

lemma legacy_values_truthy:
  "list_ex P (values_of v) \<Longrightarrow> \<forall>c. \<not> P (JStr [c]) \<Longrightarrow>
     truthy v \<and> object_values v = Some (values_of v)"
  by (cases v) (auto simp: values_of_def list_ex_iff)

lemma legacy_footprint_char: "\<not> legacy_footprint (JStr [c])"
  by (simp add: legacy_footprint_def optional_prop_def)

lemma legacy_pcb_char: "\<not> legacy_pcb (JStr [c])"
  by (simp add: legacy_pcb_def optional_prop_def values_of_def)

lemma optional_prop_defined:
  "optional_prop v k \<noteq> JUndefined \<Longrightarrow> get_prop v k = Some (optional_prop v k) \<and> truthy v"
  by (cases v) (auto simp: optional_prop_def)

lemma values_of_nonempty: "list_ex P (values_of v) \<Longrightarrow> v \<noteq> JUndefined"
  by (auto simp: values_of_def)

lemma get_prop_truthy: "truthy v \<Longrightarrow> get_prop v k = Some (optional_prop v k)"
  by (cases v) (auto simp: optional_prop_def)

lemma scan_pcbs_legacy_head:
  assumes "legacy_pcb pcb"
  shows "scan_pcbs (pcb # rest) = ScanFound"
proof -
  let ?fpv = "optional_prop pcb ''footprints''"
  from assms have ex: "list_ex legacy_footprint (values_of ?fpv)"
    and tpl: "optional_prop pcb ''template'' = JUndefined \<or> optional_prop pcb ''template'' = JStr ''kicad5''"
    by (simp_all add: legacy_pcb_def)
  from ex have "?fpv \<noteq> JUndefined"
    by (rule values_of_nonempty)
  then have fp: "get_prop pcb ''footprints'' = Some ?fpv" and pcb: "truthy pcb"
    using optional_prop_defined by blast+
  from pcb have tp: "get_prop pcb ''template'' = Some (optional_prop pcb ''template'')"
    by (rule get_prop_truthy)
  from ex have vals: "truthy ?fpv \<and> object_values ?fpv = Some (values_of ?fpv)"
    by (rule legacy_values_truthy) (simp add: legacy_footprint_char)
  from ex have "scan_footprints (values_of ?fpv)"
    by (rule scan_footprints_finds)
  with tp fp vals tpl show ?thesis
    by auto
qed

lemma scan_pcbs_cons:
  "scan_pcbs (pcb # rest) = ScanThrows \<or> scan_pcbs (pcb # rest) = ScanFound \<or>
   scan_pcbs (pcb # rest) = scan_pcbs rest"
  by (simp split: option.split)

lemma scan_pcbs_not_clean: "list_ex legacy_pcb pcbs \<Longrightarrow> scan_pcbs pcbs \<noteq> ScanClean"
proof (induction pcbs)
  case Nil
  then show ?case by simp
next
  case (Cons pcb rest)
  show ?case
  proof (cases "legacy_pcb pcb")
    case True
    then have "scan_pcbs (pcb # rest) = ScanFound"
      by (rule scan_pcbs_legacy_head)
    then show ?thesis by simp
  next
    case False
    with Cons.prems have "list_ex legacy_pcb rest" by simp
    then have "scan_pcbs rest \<noteq> ScanClean" by (rule Cons.IH)
    with scan_pcbs_cons [of pcb rest] show ?thesis by auto
  qed
qed

lemma scan_config_not_clean:
  assumes "has_legacy_pattern parsedConfig"
  shows "scan_config parsedConfig \<noteq> ScanClean"
proof -
  let ?pcbs = "optional_prop parsedConfig ''pcbs''"
  from assms have ex: "list_ex legacy_pcb (values_of ?pcbs)"
    by (simp add: has_legacy_pattern_def)
  then have "?pcbs \<noteq> JUndefined"
    by (rule values_of_nonempty)
  then have gp: "get_prop parsedConfig ''pcbs'' = Some ?pcbs" and tr: "truthy parsedConfig"
    using optional_prop_defined by blast+
  from ex have vals: "truthy ?pcbs \<and> object_values ?pcbs = Some (values_of ?pcbs)"
    by (rule legacy_values_truthy) (simp add: legacy_pcb_char)
  from ex have "scan_pcbs (values_of ?pcbs) \<noteq> ScanClean"
    by (rule scan_pcbs_not_clean)
  with gp tr vals show ?thesis
    by (simp add: scan_config_def)
qed

lemma warning_catch_block: "deprecationWarning (catch_block s e) = deprecationWarning s"
  by (simp add: catch_block_def Let_def split: js_thrown.split)

lemma runGeneration_resolved_warning:
  assumes "scan_config (snd (parseConfig e text)) \<noteq> ScanClean"
    and "text \<noteq> []"
    and "runGeneration e s (Some text) injection opts = (Resolved, s1)"
  shows "deprecationWarning s1 = Some KICAD5_WARNING"
  using assms
  by (auto simp: runGeneration_def Let_def warning_catch_block
      split: scan_result.splits option.splits worker.splits)

lemma runGeneration_sent_config:
  assumes "runGeneration e s (Some text) injection opts = (c, s1)"
    and "ergogenSent s1 = ergogenSent s @ [m]"
  shows "text \<noteq> [] \<and>
         inputConfig m =
           (if truthy (optional_prop (snd (parseConfig e text)) ''points'') \<and>
               pointsonly (case opts of None \<Rightarrow> default_options | Some opt \<Rightarrow> opt)
            then strip_heavy (snd (parseConfig e text)) else ConfigText text)"
  using assms
  by (auto simp: runGeneration_def Let_def catch_block_def
      split: scan_result.splits option.splits worker.splits js_thrown.splits if_splits)

lemma warning_after_success:
  "deprecationWarning s = Some p \<Longrightarrow>
     \<exists>w. deprecationWarning (handleErgogenWorkerMessage s (ErgogenSuccess res warnings)) = Some w \<and> prefix p w"
  by (auto simp: handleErgogenWorkerMessage_def Let_def append_warnings_def
      split: option.split worker.split)

lemma warning_after_error:
  "deprecationWarning (handleErgogenWorkerMessage s (ErgogenError message)) = deprecationWarning s"
  by (simp add: handleErgogenWorkerMessage_def)

text \<open>
  Claim C9. Let the parsed snapshot have a PCB entry without template, or with the
  template \<^verbatim>\<open>kicad5\<close>, that contains a footprint whose \<^verbatim>\<open>what\<close> starts with
  \<^verbatim>\<open>ceoloide\<close>, and let \<^verbatim>\<open>runGeneration\<close> post its request. Then the warning is the
  deprecation message when \<^verbatim>\<open>runGeneration\<close> returns, it still starts with that message
  after a success answer (whose own warnings are appended), and it is that message
  after an error answer. The pattern is looked for in the parsed snapshot as it is,
  whereas the request carries the snapshot without \<^verbatim>\<open>pcbs\<close> and \<^verbatim>\<open>cases\<close> when
  \<^verbatim>\<open>pointsonly\<close> is set and the snapshot has \<^verbatim>\<open>points\<close>.
\<close>

theorem deprecation_warning_after_dispatch:
  assumes "has_legacy_pattern (snd (parseConfig e text))"
    and "runGeneration e s (Some text) injection opts = (Resolved, s1)"
    and "ergogenSent s1 = ergogenSent s @ [m]"
  shows "deprecationWarning s1 = Some KICAD5_WARNING \<and>
         (\<exists>w. deprecationWarning (handleErgogenWorkerMessage s1 (ErgogenSuccess res warnings)) = Some w \<and>
              prefix KICAD5_WARNING w) \<and>
         deprecationWarning (handleErgogenWorkerMessage s1 (ErgogenError message)) = Some KICAD5_WARNING \<and>
         inputConfig m =
           (if truthy (optional_prop (snd (parseConfig e text)) ''points'') \<and>
               pointsonly (case opts of None \<Rightarrow> default_options | Some opt \<Rightarrow> opt)
            then strip_heavy (snd (parseConfig e text)) else ConfigText text)"
proof -
  from assms(2,3) have sent: "text \<noteq> [] \<and>
         inputConfig m =
           (if truthy (optional_prop (snd (parseConfig e text)) ''points'') \<and>
               pointsonly (case opts of None \<Rightarrow> default_options | Some opt \<Rightarrow> opt)
            then strip_heavy (snd (parseConfig e text)) else ConfigText text)"
    by (rule runGeneration_sent_config)
  from assms(1) have "scan_config (snd (parseConfig e text)) \<noteq> ScanClean"
    by (rule scan_config_not_clean)
  with sent assms(2) have w: "deprecationWarning s1 = Some KICAD5_WARNING"
    using runGeneration_resolved_warning by blast
  from w have "\<exists>w. deprecationWarning (handleErgogenWorkerMessage s1 (ErgogenSuccess res warnings)) = Some w \<and>
              prefix KICAD5_WARNING w"
    by (rule warning_after_success)
  with w sent show ?thesis
    by (simp add: warning_after_error)
qed

lemma kb_dispatch:
  "runGeneration test_env ready_state (Some ''kb'') None None =
     (Resolved, ready_state\<lparr>isGenerating := True, currentConfigVersion := 1,
        deprecationWarning := Some KICAD5_WARNING,
        ergogenSent := [GenerateRequest
          (ConfigObject [(''points'', JObj [(''zones'', JObj [])]), (''pcbs'', JUndefined), (''cases'', JUndefined)])
          None 1 1000 False True]\<rparr>)"
  by (simp add: fixture_defs run_defs)

theorem deprecation_warning_after_dispatch_witness:
  "has_legacy_pattern (snd (parseConfig test_env ''kb'')) \<and>
   runGeneration test_env ready_state (Some ''kb'') None None =
     (Resolved, ready_state\<lparr>isGenerating := True, currentConfigVersion := 1,
        deprecationWarning := Some KICAD5_WARNING,
        ergogenSent := [GenerateRequest
          (ConfigObject [(''points'', JObj [(''zones'', JObj [])]), (''pcbs'', JUndefined), (''cases'', JUndefined)])
          None 1 1000 False True]\<rparr>) \<and>
   (\<exists>w. deprecationWarning
          (handleErgogenWorkerMessage
             (ready_state\<lparr>isGenerating := True, currentConfigVersion := 1,
                deprecationWarning := Some KICAD5_WARNING,
                ergogenSent := [GenerateRequest
                  (ConfigObject [(''points'', JObj [(''zones'', JObj [])]), (''pcbs'', JUndefined), (''cases'', JUndefined)])
                  None 1 1000 False True]\<rparr>)
             (ErgogenSuccess (Some first_results) [''slow'', ''big''])) = Some w \<and>
        prefix KICAD5_WARNING w)"
proof -
  have p: "has_legacy_pattern (snd (parseConfig test_env ''kb''))"
    by (simp add: parseConfig_def test_env_def test_yaml_def has_legacy_pattern_def legacy_pcb_def
        legacy_footprint_def values_of_def optional_prop_def kb_config_def)
  have sent: "ergogenSent (ready_state\<lparr>isGenerating := True, currentConfigVersion := 1,
        deprecationWarning := Some KICAD5_WARNING,
        ergogenSent := [GenerateRequest
          (ConfigObject [(''points'', JObj [(''zones'', JObj [])]), (''pcbs'', JUndefined), (''cases'', JUndefined)])
          None 1 1000 False True]\<rparr>) = ergogenSent ready_state @ [GenerateRequest
          (ConfigObject [(''points'', JObj [(''zones'', JObj [])]), (''pcbs'', JUndefined), (''cases'', JUndefined)])
          None 1 1000 False True]"
    by (simp add: fixture_defs)
  from deprecation_warning_after_dispatch [OF p kb_dispatch sent, of "Some first_results" "[''slow'', ''big'']"]
  show ?thesis
    using p kb_dispatch by blast
qed

subsection \<open>The debounced trigger\<close>

lemma timer_not_due:
  "now < deadline \<Longrightarrow> timer_fires e now (s\<lparr>debounced := Scheduled deadline args\<rparr>) =
     s\<lparr>debounced := Scheduled deadline args\<rparr>"
  by (cases args) (simp add: timer_fires_def)

lemma timer_idle: "debounced s = Idle \<Longrightarrow> timer_fires e now s = s"
  by (simp add: timer_fires_def)

lemma timer_due:
  "timer_fires e deadline (s\<lparr>debounced := Scheduled deadline (textInput, injection, options)\<rparr>) =
     snd (runGeneration (e\<lparr>date_now := deadline\<rparr>) (s\<lparr>debounced := Idle\<rparr>) textInput injection options)"
  by (simp add: timer_fires_def)

lemma debounced_calls_pending:
  "rapid ((t0, a0) # calls) \<Longrightarrow>
     debounced_calls e (s\<lparr>debounced := Scheduled (t0 + QUIET_PERIOD) a0\<rparr>) calls =
       s\<lparr>debounced := Scheduled (fst (last ((t0, a0) # calls)) + QUIET_PERIOD) (snd (last ((t0, a0) # calls)))\<rparr>"
proof (induction calls arbitrary: t0 a0)
  case Nil
  show ?case by simp
next
  case (Cons c calls)
  obtain t1 a1 where c: "c = (t1, a1)" by (cases c)
  from Cons.prems c have due: "t1 < t0 + QUIET_PERIOD" and rest: "rapid ((t1, a1) # calls)"
    by simp_all
  have "debounced_calls e (s\<lparr>debounced := Scheduled (t0 + QUIET_PERIOD) a0\<rparr>) (c # calls) =
        debounced_calls e (s\<lparr>debounced := Scheduled (t1 + QUIET_PERIOD) a1\<rparr>) calls"
    by (simp add: c timer_not_due [OF due] processInput_def)
  also have "\<dots> = s\<lparr>debounced := Scheduled (fst (last ((t1, a1) # calls)) + QUIET_PERIOD)
                       (snd (last ((t1, a1) # calls)))\<rparr>"
    by (rule Cons.IH [OF rest])
  finally show ?case by (simp add: c)
qed

lemma debounced_calls_rapid:
  assumes "rapid calls" and "calls \<noteq> []" and "debounced s = Idle"
  shows "debounced_calls e s calls =
           s\<lparr>debounced := Scheduled (fst (last calls) + QUIET_PERIOD) (snd (last calls))\<rparr>"
proof -
  from assms(2) obtain t0 a0 rest where calls: "calls = (t0, a0) # rest"
    by (cases calls) auto
  have "debounced_calls e s calls =
          debounced_calls e (s\<lparr>debounced := Scheduled (t0 + QUIET_PERIOD) a0\<rparr>) rest"
    by (simp add: calls timer_idle [OF assms(3)] processInput_def)
  also have "\<dots> = s\<lparr>debounced := Scheduled (fst (last ((t0, a0) # rest)) + QUIET_PERIOD)
                       (snd (last ((t0, a0) # rest)))\<rparr>"
    using assms(1) unfolding calls by (rule debounced_calls_pending)
  finally show ?thesis by (simp only: calls)
qed

lemma burst_rapid:
  assumes "rapid calls" and "calls \<noteq> []" and "debounced s = Idle"
    and "last calls = (t, textInput, injection, options)"
  shows "burst e s calls =
           snd (runGeneration (e\<lparr>date_now := t + QUIET_PERIOD\<rparr>) s textInput injection options)"
proof -
  have "burst e s calls = timer_fires e (t + QUIET_PERIOD) (debounced_calls e s calls)"
  proof -
    from assms(4) have "fst (last calls) = t" by simp
    with assms(2) show ?thesis by (cases calls) (simp_all add: burst_def)
  qed
  also have "\<dots> = timer_fires e (t + QUIET_PERIOD)
                      (s\<lparr>debounced := Scheduled (t + QUIET_PERIOD) (textInput, injection, options)\<rparr>)"
    by (simp add: debounced_calls_rapid [OF assms(1,2,3)] assms(4))
  also have "\<dots> = snd (runGeneration (e\<lparr>date_now := t + QUIET_PERIOD\<rparr>) (s\<lparr>debounced := Idle\<rparr>)
                           textInput injection options)"
    by (rule timer_due)
  also have "s\<lparr>debounced := Idle\<rparr> = s"
    using assms(3) by simp
  finally show ?thesis .
qed

lemma runGeneration_posts:
  assumes "text \<noteq> []" and "scan_config (snd (parseConfig e text)) \<noteq> ScanThrows"
    and "ergogenWorkerRef s = Some PostOk"
  shows "ergogenSent (snd (runGeneration e s (Some text) injection options)) =
           ergogenSent s @
             [GenerateRequest
                (if truthy (optional_prop (snd (parseConfig e text)) ''points'') \<and>
                    pointsonly (case options of None \<Rightarrow> default_options | Some opt \<Rightarrow> opt)
                 then strip_heavy (snd (parseConfig e text)) else ConfigText text)
                injection (js_incr (currentConfigVersion s)) (date_now e) (debug s) True]"
  using assms
  by (simp add: runGeneration_def Let_def split: scan_result.split)

lemma runGeneration_empty:
  "textInput = None \<or> textInput = Some [] \<Longrightarrow> runGeneration e s textInput injection options = (Resolved, s)"
  by (auto simp: runGeneration_def)

text \<open>
  Claim C5, as far as the code goes. Let debounced calls follow each other within the
  quiet period, starting with no timer scheduled. Then nothing runs during the calls:
  the state is the one before them with the timer scheduled for the last call's time
  plus the quiet period and the last call's arguments. Once that quiet period is over
  \<^verbatim>\<open>runGeneration\<close> has run exactly once, with the snapshot, injections and options of
  the last call. Exactly one request is posted, carrying the last call's snapshot
  (without \<^verbatim>\<open>pcbs\<close> and \<^verbatim>\<open>cases\<close> where \<^verbatim>\<open>pointsonly\<close> applies) and injections,
  when that snapshot is not empty, the scan raises no TypeError and the worker takes the
  message; with an undefined or empty last snapshot the state is left as it was.
\<close>

theorem rapid_calls_run_generation_once:
  assumes "rapid calls" and "calls \<noteq> []" and "debounced s = Idle"
    and "last calls = (t, textInput, injection, options)"
  shows "debounced_calls e s calls =
           s\<lparr>debounced := Scheduled (t + QUIET_PERIOD) (textInput, injection, options)\<rparr> \<and>
         burst e s calls =
           snd (runGeneration (e\<lparr>date_now := t + QUIET_PERIOD\<rparr>) s textInput injection options) \<and>
         (textInput = Some text \<and> text \<noteq> [] \<and>
          scan_config (snd (parseConfig (e\<lparr>date_now := t + QUIET_PERIOD\<rparr>) text)) \<noteq> ScanThrows \<and>
          ergogenWorkerRef s = Some PostOk \<longrightarrow>
            ergogenSent (burst e s calls) =
              ergogenSent s @
                [GenerateRequest
                   (if truthy (optional_prop (snd (parseConfig (e\<lparr>date_now := t + QUIET_PERIOD\<rparr>) text)) ''points'') \<and>
                       pointsonly (case options of None \<Rightarrow> default_options | Some opt \<Rightarrow> opt)
                    then strip_heavy (snd (parseConfig (e\<lparr>date_now := t + QUIET_PERIOD\<rparr>) text))
                    else ConfigText text)
                   injection (js_incr (currentConfigVersion s)) (t + QUIET_PERIOD) (debug s) True]) \<and>
         (textInput = None \<or> textInput = Some [] \<longrightarrow> burst e s calls = s)"
proof -
  have pending: "debounced_calls e s calls =
           s\<lparr>debounced := Scheduled (t + QUIET_PERIOD) (textInput, injection, options)\<rparr>"
    by (simp add: debounced_calls_rapid [OF assms(1,2,3)] assms(4))
  have fired: "burst e s calls =
           snd (runGeneration (e\<lparr>date_now := t + QUIET_PERIOD\<rparr>) s textInput injection options)"
    using assms by (rule burst_rapid)
  show ?thesis
  proof (intro conjI impI)
    show "debounced_calls e s calls =
           s\<lparr>debounced := Scheduled (t + QUIET_PERIOD) (textInput, injection, options)\<rparr>"
      by (rule pending)
  next
    show "burst e s calls =
           snd (runGeneration (e\<lparr>date_now := t + QUIET_PERIOD\<rparr>) s textInput injection options)"
      by (rule fired)
  next
    assume a: "textInput = Some text \<and> text \<noteq> [] \<and>
          scan_config (snd (parseConfig (e\<lparr>date_now := t + QUIET_PERIOD\<rparr>) text)) \<noteq> ScanThrows \<and>
          ergogenWorkerRef s = Some PostOk"
    then show "ergogenSent (burst e s calls) =
              ergogenSent s @
                [GenerateRequest
                   (if truthy (optional_prop (snd (parseConfig (e\<lparr>date_now := t + QUIET_PERIOD\<rparr>) text)) ''points'') \<and>
                       pointsonly (case options of None \<Rightarrow> default_options | Some opt \<Rightarrow> opt)
                    then strip_heavy (snd (parseConfig (e\<lparr>date_now := t + QUIET_PERIOD\<rparr>) text))
                    else ConfigText text)
                   injection (js_incr (currentConfigVersion s)) (t + QUIET_PERIOD) (debug s) True]"
      using runGeneration_posts [of "text" "e\<lparr>date_now := t + QUIET_PERIOD\<rparr>" s injection options]
      by (simp add: fired)
  next
    assume "textInput = None \<or> textInput = Some []"
    then show "burst e s calls = s"
      by (simp add: fired runGeneration_empty)
  qed
qed

lemma rapid_edits_ending_with_text: "rapid edits_ending_with_text"
  by (simp add: edits_ending_with_text_def QUIET_PERIOD_def)

theorem rapid_calls_run_generation_once_witness:
  "rapid edits_ending_with_text \<and> edits_ending_with_text \<noteq> [] \<and> debounced idle_state = Idle \<and>
   last edits_ending_with_text =
     (350, Some ''kb'', Some [[''footprint'', ''mx'', ''code'']], Some \<lparr>pointsonly = False\<rparr>) \<and>
   ergogenSent (debounced_calls test_env idle_state edits_ending_with_text) = [] \<and>
   ergogenSent (burst test_env idle_state edits_ending_with_text) =
     [GenerateRequest (ConfigText ''kb'') (Some [[''footprint'', ''mx'', ''code'']]) 1 650 False True]"
proof -
  have l: "last edits_ending_with_text =
     (350, Some ''kb'', Some [[''footprint'', ''mx'', ''code'']], Some \<lparr>pointsonly = False\<rparr>)"
    by (simp add: edits_ending_with_text_def)
  have n: "edits_ending_with_text \<noteq> []"
    by (simp add: edits_ending_with_text_def)
  have i: "debounced idle_state = Idle"
    by (simp add: idle_state_def initial_state_def)
  from rapid_calls_run_generation_once [OF rapid_edits_ending_with_text n i l, of test_env "''kb''"]
  show ?thesis
    using rapid_edits_ending_with_text n i l
    by (simp add: idle_state_def fixture_defs run_defs QUIET_PERIOD_def)
qed

text \<open>
  Claim C5 as stated fails: three calls within the quiet period, the last with an empty
  snapshot, post no request at all.
\<close>

theorem rapid_calls_ending_empty_dispatch_nothing:
  "rapid edits_ending_empty \<and>
   ergogenSent idle_state = [] \<and>
   ergogenSent (burst test_env idle_state edits_ending_empty) = [] \<and>
   currentConfigVersion (burst test_env idle_state edits_ending_empty) = 0"
  by (simp add: edits_ending_empty_def burst_def timer_fires_def processInput_def idle_state_def
      fixture_defs run_defs QUIET_PERIOD_def)

end
